theory Spec2Isabelle
  imports Complex_Main "HOL-Library.Word" "HOL-Library.Log_Nat"
begin

unbundle bit_operations_syntax

section \<open>Numbers\<close>

text \<open>
  A TypeScript \<open>number\<close> is modelled by \<open>jsnum\<close>: the special values \<open>NaN\<close>,
  \<open>+Infinity\<close>, \<open>-Infinity\<close> and \<open>-0\<close>, and the finite values \<open>Fin r\<close>, where
  \<open>Fin 0\<close> is \<open>+0\<close>. The operations follow the ECMAScript rules for the special
  values and the sign of zero, and are exact on finite values: rounding, overflow and
  underflow of binary64 are not modelled. Equality of \<open>jsnum\<close> distinguishes \<open>+0\<close>
  from \<open>-0\<close> (as \<open>Object.is\<close> does); the operator \<open>===\<close> is \<open>js_eq\<close>.
\<close>

datatype jsnum = NaN | PInf | NInf | NZero | Fin real

fun is_inf :: "jsnum \<Rightarrow> bool" where
  "is_inf PInf = True"
| "is_inf NInf = True"
| "is_inf _ = False"

fun is_zero :: "jsnum \<Rightarrow> bool" where
  "is_zero NZero = True"
| "is_zero (Fin r) = (r = 0)"
| "is_zero _ = False"

fun is_finite :: "jsnum \<Rightarrow> bool" where
  "is_finite NZero = True"
| "is_finite (Fin r) = True"
| "is_finite _ = False"

text \<open>The sign bit.\<close>

fun sign_bit :: "jsnum \<Rightarrow> bool" where
  "sign_bit NInf = True"
| "sign_bit NZero = True"
| "sign_bit (Fin r) = (r < 0)"
| "sign_bit _ = False"

text \<open>The real value of a finite number (both zeros have value 0).\<close>

fun val :: "jsnum \<Rightarrow> real" where
  "val (Fin r) = r"
| "val _ = 0"

definition signed_zero :: "bool \<Rightarrow> jsnum" where
  "signed_zero neg = (if neg then NZero else Fin 0)"

definition signed_inf :: "bool \<Rightarrow> jsnum" where
  "signed_inf neg = (if neg then NInf else PInf)"

instantiation jsnum :: "{plus, minus, uminus, times, inverse, ord}"
begin

fun uminus_jsnum :: "jsnum \<Rightarrow> jsnum" where
  "uminus_jsnum NaN = NaN"
| "uminus_jsnum PInf = NInf"
| "uminus_jsnum NInf = PInf"
| "uminus_jsnum NZero = Fin 0"
| "uminus_jsnum (Fin r) = (if r = 0 then NZero else Fin (- r))"

text \<open>
  Addition: \<open>Infinity + -Infinity\<close> is \<open>NaN\<close>; \<open>-0 + -0\<close> is \<open>-0\<close>, every other
  sum that is zero is \<open>+0\<close>.
\<close>

fun plus_jsnum :: "jsnum \<Rightarrow> jsnum \<Rightarrow> jsnum" where
  "plus_jsnum NaN b = NaN"
| "plus_jsnum a NaN = NaN"
| "plus_jsnum PInf NInf = NaN"
| "plus_jsnum NInf PInf = NaN"
| "plus_jsnum PInf b = PInf"
| "plus_jsnum a PInf = PInf"
| "plus_jsnum NInf b = NInf"
| "plus_jsnum a NInf = NInf"
| "plus_jsnum NZero b = b"
| "plus_jsnum a NZero = a"
| "plus_jsnum (Fin a) (Fin b) = Fin (a + b)"

definition minus_jsnum :: "jsnum \<Rightarrow> jsnum \<Rightarrow> jsnum" where
  "minus_jsnum a b = a + (- b)"

text \<open>
  Multiplication: \<open>Infinity * 0\<close> is \<open>NaN\<close>; the sign of the result is the
  exclusive or of the signs, also for a zero result.
\<close>

definition times_jsnum :: "jsnum \<Rightarrow> jsnum \<Rightarrow> jsnum" where
  "times_jsnum a b =
     (if a = NaN \<or> b = NaN then NaN
      else if is_inf a \<or> is_inf b then
        (if is_zero a \<or> is_zero b then NaN else signed_inf (sign_bit a \<noteq> sign_bit b))
      else if val a * val b = 0 then signed_zero (sign_bit a \<noteq> sign_bit b)
      else Fin (val a * val b))"

text \<open>
  Division: \<open>Infinity / Infinity\<close> and \<open>0 / 0\<close> are \<open>NaN\<close>; a non-zero number
  divided by a zero is an infinity.
\<close>

definition divide_jsnum :: "jsnum \<Rightarrow> jsnum \<Rightarrow> jsnum" where
  "divide_jsnum a b =
     (if a = NaN \<or> b = NaN then NaN
      else if is_inf a then (if is_inf b then NaN else signed_inf (sign_bit a \<noteq> sign_bit b))
      else if is_inf b then signed_zero (sign_bit a \<noteq> sign_bit b)
      else if is_zero b then (if is_zero a then NaN else signed_inf (sign_bit a \<noteq> sign_bit b))
      else if is_zero a then signed_zero (sign_bit a \<noteq> sign_bit b)
      else Fin (val a / val b))"

definition inverse_jsnum :: "jsnum \<Rightarrow> jsnum" where
  "inverse_jsnum a = divide (Fin 1) a"

text \<open>Comparisons are false when an operand is \<open>NaN\<close>; the two zeros compare equal.\<close>

definition less_jsnum :: "jsnum \<Rightarrow> jsnum \<Rightarrow> bool" where
  "less_jsnum a b =
     (a \<noteq> NaN \<and> b \<noteq> NaN \<and> a \<noteq> PInf \<and> b \<noteq> NInf \<and> (a = NInf \<or> b = PInf \<or> val a < val b))"

definition less_eq_jsnum :: "jsnum \<Rightarrow> jsnum \<Rightarrow> bool" where
  "less_eq_jsnum a b =
     (a \<noteq> NaN \<and> b \<noteq> NaN \<and>
      (a = NInf \<or> b = PInf \<or> (is_finite a \<and> is_finite b \<and> val a \<le> val b)))"

instance ..

end

text \<open>The operator \<open>===\<close> on numbers.\<close>

definition js_eq :: "jsnum \<Rightarrow> jsnum \<Rightarrow> bool" where
  "js_eq a b = (a \<noteq> NaN \<and> b \<noteq> NaN \<and> (a = b \<or> (is_zero a \<and> is_zero b)))"

text \<open>\<open>Math.max\<close> and \<open>Math.min\<close>: \<open>NaN\<close> if an argument is; \<open>+0\<close> is larger than \<open>-0\<close>.\<close>

definition Math_max :: "jsnum \<Rightarrow> jsnum \<Rightarrow> jsnum" where
  "Math_max a b =
     (if a = NaN \<or> b = NaN then NaN
      else if a < b then b else if b < a then a
      else if a = NZero then b else a)"



text \<open>\<open>Math.log10\<close>: \<open>NaN\<close> below zero, \<open>-Infinity\<close> at a zero.\<close>

fun Math_log10 :: "jsnum \<Rightarrow> jsnum" where
  "Math_log10 NaN = NaN"
| "Math_log10 PInf = PInf"
| "Math_log10 NInf = NaN"
| "Math_log10 NZero = NInf"
| "Math_log10 (Fin r) = (if r < 0 then NaN else if r = 0 then NInf else Fin (log 10 r))"

text \<open>
  \<open>Math.pow\<close>, by the cases of the ECMAScript operation Number::exponentiate. An odd
  integer exponent keeps the sign of a negative base; a negative finite base with a
  non-integer exponent gives \<open>NaN\<close>.
\<close>

definition is_integer :: "jsnum \<Rightarrow> bool" where
  "is_integer e = (is_finite e \<and> of_int \<lfloor>val e\<rfloor> = val e)"

definition odd_integer :: "jsnum \<Rightarrow> bool" where
  "odd_integer e = (is_integer e \<and> odd \<lfloor>val e\<rfloor>)"

definition Math_pow :: "jsnum \<Rightarrow> jsnum \<Rightarrow> jsnum" where
  "Math_pow b e =
     (if e = NaN then NaN
      else if is_zero e then Fin 1
      else if b = NaN then NaN
      else if b = PInf then (if Fin 0 < e then PInf else Fin 0)
      else if b = NInf then
        (if Fin 0 < e then (if odd_integer e then NInf else PInf)
         else (if odd_integer e then NZero else Fin 0))
      else if is_zero b then
        (if Fin 0 < e then (if sign_bit b \<and> odd_integer e then NZero else Fin 0)
         else (if sign_bit b \<and> odd_integer e then NInf else PInf))
      else if e = PInf then
        (if 1 < \<bar>val b\<bar> then PInf else if \<bar>val b\<bar> = 1 then NaN else Fin 0)
      else if e = NInf then
        (if 1 < \<bar>val b\<bar> then Fin 0 else if \<bar>val b\<bar> = 1 then NaN else PInf)
      else if val b < 0 then
        (if is_integer e then Fin (val b powi \<lfloor>val e\<rfloor>) else NaN)
      else Fin (val b powr val e))"

section \<open>The simulation engine (engine.ts)\<close>

text \<open>
  The numbers of \<open>engine.ts\<close> are modelled as \<open>real\<close>: exact arithmetic on finite
  values. Every division and logarithm of the file is guarded by the code itself (the
  interval test of \<open>interpolate\<close>, \<open>|| 1\<close>, \<open>Math.max\<close> with a positive epsilon),
  and the bases of \<open>Math.pow\<close> are positive constants, so finite inputs never produce
  \<open>NaN\<close> or an infinity there.
\<close>

type_synonym Vector3 = "real \<times> real \<times> real"

text \<open>A \<open>Matrix3x3\<close> is the triple of its rows, \<open>m[i][j]\<close> the \<open>j\<close>-th entry of row \<open>i\<close>.\<close>

type_synonym Matrix3x3 = "Vector3 \<times> Vector3 \<times> Vector3"

record Point =
  px :: real
  py :: real

definition multiplyMatrixVector :: "Matrix3x3 \<Rightarrow> Vector3 \<Rightarrow> Vector3" where
  "multiplyMatrixVector m v =
     (case m of ((m00, m01, m02), (m10, m11, m12), (m20, m21, m22)) \<Rightarrow>
      case v of (v0, v1, v2) \<Rightarrow>
        (m00 * v0 + m01 * v1 + m02 * v2,
         m10 * v0 + m11 * v1 + m12 * v2,
         m20 * v0 + m21 * v1 + m22 * v2))"

text \<open>
  The \<open>for\<close> loop of \<open>interpolate\<close>: the first \<open>i\<close> with
  \<open>points[i].x \<le> x < points[i+1].x\<close> decides; \<open>None\<close> when the loop runs out.
\<close>

fun interpolate_loop :: "real \<Rightarrow> Point list \<Rightarrow> real option" where
  "interpolate_loop x (p # q # ps) =
     (if x \<ge> px p \<and> x < px q then
        (let t = (x - px p) / (px q - px p) in Some (py p + t * (py q - py p)))
      else interpolate_loop x (q # ps))"
| "interpolate_loop x ps = None"

definition interpolate :: "real \<Rightarrow> Point list \<Rightarrow> real" where
  "interpolate x points =
     (if length points = 0 then 0
      else if x \<le> px (hd points) then py (hd points)
      else if x \<ge> px (last points) then py (last points)
      else case interpolate_loop x points of
             Some v \<Rightarrow> v
           | None \<Rightarrow> py (last points))"

subsection \<open>Film profiles\<close>

text \<open>
  The declaration of \<open>FilmProfile\<close> (\<open>lib/types\<close>) is not among the sources: the
  records below have the fields the engine reads. An optional field is an \<open>option\<close>.
\<close>

datatype FilmType = negative | reversal | bw_negative

record Meta =
  film_type :: "FilmType option"
  process :: "string option"

record Physics =
  rgb_to_raw_matrix :: "Matrix3x3 option"
  dye_density :: "real list list option"

record Sensitometry =
  red :: "Point list"
  green :: "Point list"
  blue :: "Point list"

record FilmProfile =
  id :: "string option"
  meta :: "Meta option"
  physics :: Physics
  sensitometry :: Sensitometry

subsection \<open>Calibration\<close>

text \<open>
  \<open>getMinY\<close> is \<open>Math.min(...pts.map(p => p.y))\<close>. \<open>Math.min()\<close> of no argument
  is \<open>Infinity\<close>; the constructor evaluates \<open>getMinY\<close> on an empty curve only on the
  path that throws, which \<open>findMidpointShift\<close> models, so the value for the empty
  list is never used.
\<close>

fun getMinY :: "Point list \<Rightarrow> real" where
  "getMinY [] = 0"
| "getMinY (p # ps) = fold (\<lambda>q m. min m (py q)) ps (py p)"

text \<open>The fifteen bisection steps of \<open>findMidpointShift\<close>, on the pair \<open>(low, high)\<close>.\<close>

fun bisection ::
    "nat \<Rightarrow> Point list \<Rightarrow> real \<Rightarrow> real \<Rightarrow> real \<Rightarrow> real \<times> real \<Rightarrow> real \<times> real" where
  "bisection 0 points target dMinVal slope (low, high) = (low, high)"
| "bisection (Suc n) points target dMinVal slope (low, high) =
     (let mid = (low + high) / 2;
          analyticalDensity = interpolate mid points - dMinVal
      in bisection n points target dMinVal slope
           (if analyticalDensity < target
            then (if slope > 0 then (mid, high) else (low, mid))
            else (if slope > 0 then (low, mid) else (mid, high))))"

text \<open>
  \<open>points[points.length-1].y\<close> on an empty curve reads a property of \<open>undefined\<close>:
  a \<open>TypeError\<close>.
\<close>

datatype js_error = Error string | TypeError

definition findMidpointShift :: "Point list \<Rightarrow> real \<Rightarrow> js_error + real" where
  "findMidpointShift points target =
     (if points = [] then Inl TypeError
      else (let dMinVal = getMinY points;
                slope = py (last points) - py (hd points)
            in case bisection 15 points target dMinVal slope (- 4, 4) of
                 (low, high) \<Rightarrow> Inr ((low + high) / 2)))"

text \<open>Lower-casing, on the ASCII letters.\<close>

definition toLowerCase :: "string \<Rightarrow> string" where
  "toLowerCase s =
     map (\<lambda>c. if 65 \<le> (of_char c :: nat) \<and> (of_char c :: nat) \<le> 90
              then char_of (of_char c + 32 :: nat) else c) s"

fun str_includes :: "string \<Rightarrow> string \<Rightarrow> bool" where
  "str_includes [] sub = (sub = [])"
| "str_includes (c # cs) sub = (take (length sub) (c # cs) = sub \<or> str_includes cs sub)"

definition inferFilmType :: "FilmProfile \<Rightarrow> FilmType" where
  "inferFilmType profile =
     (case (case meta profile of None \<Rightarrow> None | Some m \<Rightarrow> film_type m) of
        Some t \<Rightarrow> t
      | None \<Rightarrow>
        (let process = (case meta profile of
                          None \<Rightarrow> None
                        | Some m \<Rightarrow> map_option toLowerCase (Meta.process m));
             id = (case FilmProfile.id profile of None \<Rightarrow> [] | Some s \<Rightarrow> toLowerCase s)
         in if process = Some ''e-6'' \<or> str_includes id ''provia'' \<or> str_includes id ''velvia''
               \<or> str_includes id ''ektachrome'' then reversal
            else if process = Some ''bw'' \<or> str_includes id ''tri-x'' \<or> str_includes id ''hp5''
               \<or> str_includes id ''tmax'' then bw_negative
            else negative))"

text \<open>
  The state of a \<open>SimulationEngine\<close>. The constructor calls \<open>expose\<close>, \<open>develop\<close>
  and \<open>scan\<close> on the object before it assigns \<open>baseResponse\<close>: \<open>Calibration\<close> is
  the object at that point, \<open>SimulationEngine\<close> the finished one, and the three
  methods, which do not read \<open>baseResponse\<close>, are defined on both. The wavelength
  table of \<open>color_constants.json\<close> is not among the sources and is a parameter of the
  constructor.
\<close>

record Calibration =
  profile :: FilmProfile
  sensitivityMatrix :: Matrix3x3
  dyeDensity :: "real list list"
  wavelengths :: "real list"
  filmType :: FilmType
  normalizationScale :: Vector3
  dMin :: Vector3
  sensitivityOffsets :: Vector3

record SimulationEngine = Calibration +
  baseResponse :: Vector3

text \<open>\<open>v || 1\<close> on a finite number.\<close>

definition or1 :: "real \<Rightarrow> real" where
  "or1 v = (if v = 0 then 1 else v)"

definition expose :: "'a Calibration_scheme \<Rightarrow> Vector3 \<Rightarrow> real \<Rightarrow> Vector3" where
  "expose this rgb exposureCompEv =
     (case sensitivityMatrix this of ((m00, m01, m02), (m10, m11, m12), (m20, m21, m22)) \<Rightarrow>
      case rgb of (rgb0, rgb1, rgb2) \<Rightarrow>
      case normalizationScale this of (n0, n1, n2) \<Rightarrow>
      case sensitivityOffsets this of (o0, o1, o2) \<Rightarrow>
        (let exposureScale = 2 powr exposureCompEv;
             rawR = rgb0 * m00 + rgb1 * m10 + rgb2 * m20;
             rawG = rgb0 * m01 + rgb1 * m11 + rgb2 * m21;
             rawB = rgb0 * m02 + rgb1 * m12 + rgb2 * m22;
             rawR = rawR * (n0 * 10 powr o0 * exposureScale);
             rawG = rawG * (n1 * 10 powr o1 * exposureScale);
             rawB = rawB * (n2 * 10 powr o2 * exposureScale)
         in (log 10 (max (1 / 10 ^ 6) rawR),
             log 10 (max (1 / 10 ^ 6) rawG),
             log 10 (max (1 / 10 ^ 6) rawB))))"

definition develop :: "'a Calibration_scheme \<Rightarrow> Vector3 \<Rightarrow> Vector3" where
  "develop this logExp =
     (case logExp of (l0, l1, l2) \<Rightarrow>
      case dMin this of (d0, d1, d2) \<Rightarrow>
        (let c = interpolate l0 (red (sensitometry (profile this))) - d0;
             m = interpolate l1 (green (sensitometry (profile this))) - d1;
             y = interpolate l2 (blue (sensitometry (profile this))) - d2
         in (max 0 c, max 0 m, max 0 y)))"

text \<open>
  One row of the dye table gives the spectral densities \<open>(dC, dM, dY, dBase)\<close>,
  by the length of the row.
\<close>

definition dye_row :: "real list \<Rightarrow> real \<times> real \<times> real \<times> real" where
  "dye_row dye =
     (if length dye \<ge> 5 then (dye ! 1, dye ! 2, dye ! 3, dye ! 4)
      else if length dye \<ge> 4 then (dye ! 1, dye ! 2, dye ! 3, 0)
      else if length dye = 2 then (dye ! 1, dye ! 1, dye ! 1, 0)
      else (0, 0, 0, 0))"

text \<open>
  The loop of \<open>scan\<close> over the wavelengths \<open>i\<close>, on the accumulators
  \<open>((R_trans, G_trans, B_trans), (N_r, N_g, N_b))\<close>. The two lists are the wavelengths
  and the rows of the dye table from index \<open>i\<close> on; when the table has no row \<open>i\<close>,
  \<open>dye.length\<close> reads a property of \<open>undefined\<close>.
\<close>

fun scan_loop :: "Vector3 \<Rightarrow> real list \<Rightarrow> real list list \<Rightarrow> Vector3 \<times> Vector3
    \<Rightarrow> js_error + Vector3 \<times> Vector3" where
  "scan_loop densityCMY [] dyes acc = Inr acc"
| "scan_loop densityCMY (lambda # ls) [] acc = Inl TypeError"
| "scan_loop densityCMY (lambda # ls) (dye # dyes) acc =
     (case densityCMY of (C, M, Y) \<Rightarrow>
      case dye_row dye of (dC, dM, dY, dBase) \<Rightarrow>
      case acc of ((R_trans, G_trans, B_trans), (N_r, N_g, N_b)) \<Rightarrow>
        (let sigma = 20;
             totalDensity = C * dC + M * dM + Y * dY + dBase;
             transmittance = 10 powr (- totalDensity);
             sB = exp (- (1 / 2) * ((lambda - 440) / sigma) ^ 2);
             sG = exp (- (1 / 2) * ((lambda - 540) / sigma) ^ 2);
             sR = exp (- (1 / 2) * ((lambda - 650) / sigma) ^ 2)
         in scan_loop densityCMY ls dyes
              ((R_trans + transmittance * sR, G_trans + transmittance * sG,
                B_trans + transmittance * sB),
               (N_r + sR, N_g + sG, N_b + sB))))"

definition scan :: "'a Calibration_scheme \<Rightarrow> Vector3 \<Rightarrow> js_error + Vector3" where
  "scan this densityCMY =
     (case densityCMY of (C, M, Y) \<Rightarrow>
        if length (dyeDensity this) = 0 then Inr (10 powr (- C), 10 powr (- M), 10 powr (- Y))
        else case scan_loop densityCMY (wavelengths this) (dyeDensity this)
                    ((0, 0, 0), (0, 0, 0)) of
               Inl e \<Rightarrow> Inl e
             | Inr ((R_trans, G_trans, B_trans), (N_r, N_g, N_b)) \<Rightarrow>
                 Inr (R_trans / or1 N_r, G_trans / or1 N_g, B_trans / or1 N_b))"

definition invert :: "SimulationEngine \<Rightarrow> Vector3 \<Rightarrow> real \<Rightarrow> Vector3" where
  "invert this scannedRGB gamma =
     (case scannedRGB of (s0, s1, s2) \<Rightarrow>
      case baseResponse this of (b0, b1, b2) \<Rightarrow>
        (let normR = s0 / max (1 / 10 ^ 9) b0;
             normG = s1 / max (1 / 10 ^ 9) b1;
             normB = s2 / max (1 / 10 ^ 9) b2
         in (- log 10 (max (1 / 10 ^ 9) normR) * gamma,
             - log 10 (max (1 / 10 ^ 9) normG) * gamma,
             - log 10 (max (1 / 10 ^ 9) normB) * gamma)))"

definition processPixel :: "'a Calibration_scheme \<Rightarrow> Vector3 \<Rightarrow> real \<Rightarrow> js_error + Vector3" where
  "processPixel this rgb exposureCompEv =
     (let logExp = expose this rgb exposureCompEv;
          density = develop this logExp
      in scan this density)"

subsection \<open>The constructor\<close>

text \<open>The scanned response to zero exposure, \<open>computedBase\<close>.\<close>

definition computedBase :: "'a Calibration_scheme \<Rightarrow> js_error + Vector3" where
  "computedBase this =
     (let zeroExp = (0, 0, 0);
          logExpZero = expose this zeroExp (- 20);
          densityZero = develop this logExpZero
      in scan this densityZero)"

definition defaultBase :: "FilmType \<Rightarrow> Vector3" where
  "defaultBase t =
     (let isSlideFilm = (t = reversal)
      in if isSlideFilm then (9 / 10, 9 / 10, 9 / 10) else (4 / 10, 15 / 100, 8 / 100))"

definition SimulationEngine_new :: "real list \<Rightarrow> FilmProfile \<Rightarrow> js_error + SimulationEngine" where
  "SimulationEngine_new colorConstants_wavelengths film_profile =
     (let sensitivityMatrix =
            (case rgb_to_raw_matrix (physics film_profile) of
               Some m \<Rightarrow> m | None \<Rightarrow> ((1, 0, 0), (0, 1, 0), (0, 0, 1)));
          dyeDensity = (case dye_density (physics film_profile) of Some d \<Rightarrow> d | None \<Rightarrow> []);
          targetMid = 1
      in case findMidpointShift (red (sensitometry film_profile)) targetMid of
           Inl e \<Rightarrow> Inl e
         | Inr midR \<Rightarrow>
      case findMidpointShift (green (sensitometry film_profile)) targetMid of
           Inl e \<Rightarrow> Inl e
         | Inr midG \<Rightarrow>
      case findMidpointShift (blue (sensitometry film_profile)) targetMid of
           Inl e \<Rightarrow> Inl e
         | Inr midB \<Rightarrow>
        (let sensitivityOffsets = (0, midG - midR, midB - midR);
             whiteVec = (1, 1, 1);
             normalizationScale =
               (case multiplyMatrixVector sensitivityMatrix whiteVec of
                  (w0, w1, w2) \<Rightarrow> (1 / or1 w0, 1 / or1 w1, 1 / or1 w2));
             dMin = (getMinY (red (sensitometry film_profile)),
                     getMinY (green (sensitometry film_profile)),
                     getMinY (blue (sensitometry film_profile)));
             this = \<lparr>profile = film_profile, sensitivityMatrix = sensitivityMatrix,
                     dyeDensity = dyeDensity, wavelengths = colorConstants_wavelengths,
                     filmType = inferFilmType film_profile,
                     normalizationScale = normalizationScale, dMin = dMin,
                     sensitivityOffsets = sensitivityOffsets\<rparr>
         in case computedBase this of
              Inl e \<Rightarrow> Inl e
            | Inr (c0, c1, c2) \<Rightarrow>
                (let MIN_VALID_BASE = 1 / 100
                 in if c0 < MIN_VALID_BASE \<or> c1 < MIN_VALID_BASE \<or> c2 < MIN_VALID_BASE
                    then Inr (Calibration.extend this
                                (SimulationEngine.fields (defaultBase (filmType this))))
                    else Inr (Calibration.extend this
                                (SimulationEngine.fields
                                   (max (1 / 10 ^ 6) c0, max (1 / 10 ^ 6) c1,
                                    max (1 / 10 ^ 6) c2))))))"

text \<open>
  The reading of \<open>expose\<close> in the specification: the raw response is the row-major
  product \<open>sensitivityMatrix \<cdot> rgb\<close> (\<open>multiplyMatrixVector\<close>, as the constructor
  computes the response to white), then scaled, clamped and taken to \<open>log10\<close>.
\<close>

definition expose_row_major :: "'a Calibration_scheme \<Rightarrow> Vector3 \<Rightarrow> real \<Rightarrow> Vector3" where
  "expose_row_major this rgb exposureCompEv =
     (case multiplyMatrixVector (sensitivityMatrix this) rgb of (raw0, raw1, raw2) \<Rightarrow>
      case normalizationScale this of (n0, n1, n2) \<Rightarrow>
      case sensitivityOffsets this of (o0, o1, o2) \<Rightarrow>
        (log 10 (max (1 / 10 ^ 6) (raw0 * (n0 * 10 powr o0 * 2 powr exposureCompEv))),
         log 10 (max (1 / 10 ^ 6) (raw1 * (n1 * 10 powr o1 * 2 powr exposureCompEv))),
         log 10 (max (1 / 10 ^ 6) (raw2 * (n2 * 10 powr o2 * 2 powr exposureCompEv)))))"

text \<open>
  A profile to evaluate the engine on: the sensitivity matrix
  \<open>[[1, 1, 0], [0, 1, 0], [0, 0, 1]]\<close>, no dye table, and the same curve through
  \<open>(-3, 0.2)\<close> and \<open>(0, 2.2)\<close> for the three channels.
\<close>

definition example_profile :: FilmProfile where
  "example_profile =
     \<lparr>id = Some ''Fuji Provia 100F'', meta = None,
      physics = \<lparr>rgb_to_raw_matrix = Some ((1, 1, 0), (0, 1, 0), (0, 0, 1)), dye_density = None\<rparr>,
      sensitometry =
        \<lparr>red = [\<lparr>px = - 3, py = 2 / 10\<rparr>, \<lparr>px = 0, py = 22 / 10\<rparr>],
         green = [\<lparr>px = - 3, py = 2 / 10\<rparr>, \<lparr>px = 0, py = 22 / 10\<rparr>],
         blue = [\<lparr>px = - 3, py = 2 / 10\<rparr>, \<lparr>px = 0, py = 22 / 10\<rparr>]\<rparr>\<rparr>"


section \<open>Dye coupling\<close>

text \<open>
  From here on the numbers are \<open>jsnum\<close>: in the functions below finite inputs can
  produce \<open>NaN\<close> and infinities (a read beyond the end of an array, a division by zero,
  a negative base of \<open>Math.pow\<close>).
\<close>

type_synonym NumVector3 = "jsnum \<times> jsnum \<times> jsnum"

text \<open>
  Reading \<open>matrix[i]\<close> beyond the end of an array gives \<open>undefined\<close>, which every use
  below multiplies by a number: the product is \<open>NaN\<close>, as it is for \<open>NaN\<close> itself.
\<close>

definition elem :: "jsnum list \<Rightarrow> nat \<Rightarrow> jsnum" where
  "elem matrix i = (if i < length matrix then matrix ! i else NaN)"

definition applyDyeCouplingToDensity :: "NumVector3 \<Rightarrow> jsnum list \<Rightarrow> NumVector3" where
  "applyDyeCouplingToDensity densities matrix =
     (case densities of (dr, dg, db) \<Rightarrow>
        (elem matrix 0 * dr + elem matrix 1 * dg + elem matrix 2 * db,
         elem matrix 3 * dr + elem matrix 4 * dg + elem matrix 5 * db,
         elem matrix 6 * dr + elem matrix 7 * dg + elem matrix 8 * db))"

definition applyDyeCoupling :: "NumVector3 \<Rightarrow> jsnum list \<Rightarrow> js_error + NumVector3" where
  "applyDyeCoupling rgb matrix =
     (if length matrix \<noteq> 9 then Inl (Error ''Dye coupling matrix must have 9 elements (3x3)'')
      else case rgb of (r, g, b) \<Rightarrow>
        (let epsilon = Fin (1 / 10 ^ 6);
             dr = - Math_log10 (Math_max r epsilon);
             dg = - Math_log10 (Math_max g epsilon);
             db = - Math_log10 (Math_max b epsilon);
             densities_new = applyDyeCouplingToDensity (dr, dg, db) matrix
         in case densities_new of (d0, d1, d2) \<Rightarrow>
              Inr (Math_pow (Fin 10) (- d0), Math_pow (Fin 10) (- d1), Math_pow (Fin 10) (- d2))))"

definition IDENTITY_MATRIX :: "jsnum list" where
  "IDENTITY_MATRIX = [Fin 1, Fin 0, Fin 0, Fin 0, Fin 1, Fin 0, Fin 0, Fin 0, Fin 1]"

section \<open>Red halation\<close>

record HalationOptions =
  strength :: jsnum
  radius :: jsnum
  threshold :: "jsnum option"


section \<open>Film grain\<close>

record GrainOptions =
  iso :: jsnum
  strength :: "jsnum option"
  size :: "jsnum option"
  monochrome :: "bool option"











section \<open>Pyramid bloom\<close>

text \<open>
  A \<open>Float32Array\<close> is the list of its elements (the rounding of a stored value to
  binary32 is not modelled). A read beyond the array gives \<open>undefined\<close>, which is
  \<open>NaN\<close> in arithmetic and when stored; a write beyond the array is ignored. The
  image dimensions are natural numbers and the radius of the options a finite number.
\<close>

type_synonym Float32Array = "jsnum list"

definition rd :: "Float32Array \<Rightarrow> int \<Rightarrow> jsnum" where
  "rd data i = (if 0 \<le> i \<and> i < int (length data) then data ! nat i else NaN)"

definition wr :: "Float32Array \<Rightarrow> int \<Rightarrow> jsnum \<Rightarrow> Float32Array" where
  "wr data i v = (if 0 \<le> i \<and> i < int (length data) then data[nat i := v] else data)"

record BloomOptions =
  strength :: jsnum
  threshold :: jsnum
  radius :: real
  weights :: "jsnum list option"

text \<open>
  One pixel of the horizontal pass of \<open>boxBlur\<close>; \<open>blur_radius\<close> is the
  parameter \<open>radius\<close> of \<open>boxBlur\<close>.
\<close>

definition boxBlur_h ::
    "Float32Array \<Rightarrow> nat \<Rightarrow> int \<Rightarrow> Float32Array \<Rightarrow> nat \<times> nat \<Rightarrow> Float32Array" where
  "boxBlur_h data width blur_radius output yx =
     (case yx of (y, x) \<Rightarrow>
        (let nxs = filter (\<lambda>nx. nx \<ge> 0 \<and> nx < int width)
                     (map (\<lambda>dx. int x + dx) [- blur_radius..blur_radius]);
             idxs = map (\<lambda>nx. (int y * int width + nx) * 4) nxs;
             r = foldl (\<lambda>r idx. r + rd data idx) (Fin 0) idxs;
             g = foldl (\<lambda>g idx. g + rd data (idx + 1)) (Fin 0) idxs;
             b = foldl (\<lambda>b idx. b + rd data (idx + 2)) (Fin 0) idxs;
             count = Fin (real (length nxs));
             idx = (int y * int width + int x) * 4;
             output = wr output idx (r / count);
             output = wr output (idx + 1) (g / count);
             output = wr output (idx + 2) (b / count)
         in wr output (idx + 3) (rd data (idx + 3))))"

text \<open>One pixel of the vertical pass.\<close>

definition boxBlur_v ::
    "Float32Array \<Rightarrow> nat \<Rightarrow> nat \<Rightarrow> int \<Rightarrow> Float32Array \<Rightarrow> nat \<times> nat \<Rightarrow> Float32Array" where
  "boxBlur_v output width height blur_radius final xy =
     (case xy of (x, y) \<Rightarrow>
        (let nys = filter (\<lambda>ny. ny \<ge> 0 \<and> ny < int height)
                     (map (\<lambda>dy. int y + dy) [- blur_radius..blur_radius]);
             idxs = map (\<lambda>ny. (ny * int width + int x) * 4) nys;
             r = foldl (\<lambda>r idx. r + rd output idx) (Fin 0) idxs;
             g = foldl (\<lambda>g idx. g + rd output (idx + 1)) (Fin 0) idxs;
             b = foldl (\<lambda>b idx. b + rd output (idx + 2)) (Fin 0) idxs;
             count = Fin (real (length nys));
             idx = (int y * int width + int x) * 4;
             final = wr final idx (r / count);
             final = wr final (idx + 1) (g / count);
             final = wr final (idx + 2) (b / count)
         in wr final (idx + 3) (rd output (idx + 3))))"

definition boxBlur :: "Float32Array \<Rightarrow> nat \<Rightarrow> nat \<Rightarrow> int \<Rightarrow> Float32Array" where
  "boxBlur data width height blur_radius =
     (if blur_radius < 1 then data
      else (let output = replicate (length data) (Fin 0);
                output = foldl (boxBlur_h data width blur_radius) output
                           [(y, x). y \<leftarrow> [0..<height], x \<leftarrow> [0..<width]];
                final = replicate (length output) (Fin 0)
            in foldl (boxBlur_v output width height blur_radius) final
                 [(x, y). x \<leftarrow> [0..<width], y \<leftarrow> [0..<height]]))"

definition downsample :: "Float32Array \<Rightarrow> nat \<Rightarrow> nat \<Rightarrow> Float32Array \<times> nat \<times> nat" where
  "downsample data width height =
     (let nw = width div 2;
          nh = height div 2;
          output = replicate (nw * nh * 4) (Fin 0);
          output = foldl (\<lambda>output (y, x).
                     (let idx = (int y * int nw + int x) * 4;
                          srcIdx = (int y * 2 * int width + int x * 2) * 4;
                          output = wr output idx (rd data srcIdx);
                          output = wr output (idx + 1) (rd data (srcIdx + 1));
                          output = wr output (idx + 2) (rd data (srcIdx + 2))
                      in wr output (idx + 3) (rd data (srcIdx + 3))))
                     output [(y, x). y \<leftarrow> [0..<nh], x \<leftarrow> [0..<nw]]
      in (output, nw, nh))"

text \<open>Step 1 of \<open>applyPyramidBloom\<close>, for the pixel at index \<open>i\<close>.\<close>

definition extract_highlight ::
    "Float32Array \<Rightarrow> jsnum \<Rightarrow> Float32Array \<Rightarrow> int \<Rightarrow> Float32Array" where
  "extract_highlight linearData thr highlightData i =
     (let r = rd linearData i;
          g = rd linearData (i + 1);
          b = rd linearData (i + 2);
          lum = Fin (2126 / 10000) * r + Fin (7152 / 10000) * g + Fin (722 / 10000) * b
      in if lum > thr then
           (let boost = (lum - thr) / (Fin 1 - thr);
                highlightData = wr highlightData i (r * boost);
                highlightData = wr highlightData (i + 1) (g * boost);
                highlightData = wr highlightData (i + 2) (b * boost)
            in wr highlightData (i + 3) (Fin 1))
         else
           (let highlightData = wr highlightData i (Fin 0);
                highlightData = wr highlightData (i + 1) (Fin 0);
                highlightData = wr highlightData (i + 2) (Fin 0)
            in wr highlightData (i + 3) (Fin 0)))"

text \<open>
  Step 2, for the level \<open>l\<close>, on the levels built so far and the current buffer.
  \<open>Math.round\<close> rounds a half upwards.
\<close>

definition pyramid_level ::
    "real \<Rightarrow> nat \<Rightarrow> (Float32Array \<times> nat \<times> nat) list \<times> (Float32Array \<times> nat \<times> nat) \<Rightarrow> nat
     \<Rightarrow> (Float32Array \<times> nat \<times> nat) list \<times> (Float32Array \<times> nat \<times> nat)" where
  "pyramid_level master_radius n state l =
     (case state of (levels, (data, w, h)) \<Rightarrow>
        (let blurred = boxBlur data w h (max 1 \<lfloor>master_radius * (real l + 1) + 1 / 2\<rfloor>);
             levels = levels @ [(blurred, w, h)]
         in if l < n - 1 then (levels, downsample data w h) else (levels, (data, w, h))))"

text \<open>Step 3, for one level and one pixel \<open>(y, x)\<close> of the result.\<close>

definition composite_pixel ::
    "nat \<Rightarrow> nat \<Rightarrow> Float32Array \<times> nat \<times> nat \<Rightarrow> jsnum \<Rightarrow> Float32Array \<Rightarrow> nat \<times> nat
     \<Rightarrow> Float32Array" where
  "composite_pixel width height level weight result yx =
     (case level of (level_data, level_w, level_h) \<Rightarrow>
      case yx of (y, x) \<Rightarrow>
        (let scaleX = real level_w / real width;
             scaleY = real level_h / real height;
             fy = real y * scaleY;
             y0 = \<lfloor>fy\<rfloor>;
             y1 = min (int level_h - 1) (y0 + 1);
             dy = fy - real_of_int y0;
             fx = real x * scaleX;
             x0 = \<lfloor>fx\<rfloor>;
             x1 = min (int level_w - 1) (x0 + 1);
             dx = fx - real_of_int x0;
             idx = (int y * int width + int x) * 4;
             i00 = (y0 * int level_w + x0) * 4;
             i10 = (y0 * int level_w + x1) * 4;
             i01 = (y1 * int level_w + x0) * 4;
             i11 = (y1 * int level_w + x1) * 4;
             w00 = Fin ((1 - dx) * (1 - dy));
             w10 = Fin (dx * (1 - dy));
             w01 = Fin ((1 - dx) * dy);
             w11 = Fin (dx * dy);
             result = wr result idx (rd result idx +
               (rd level_data i00 * w00 + rd level_data i10 * w10
                + rd level_data i01 * w01 + rd level_data i11 * w11) * weight);
             result = wr result (idx + 1) (rd result (idx + 1) +
               (rd level_data (i00 + 1) * w00 + rd level_data (i10 + 1) * w10
                + rd level_data (i01 + 1) * w01 + rd level_data (i11 + 1) * w11) * weight)
         in wr result (idx + 2) (rd result (idx + 2) +
               (rd level_data (i00 + 2) * w00 + rd level_data (i10 + 2) * w10
                + rd level_data (i01 + 2) * w01 + rd level_data (i11 + 2) * w11) * weight)))"

definition applyPyramidBloom ::
    "Float32Array \<Rightarrow> nat \<Rightarrow> nat \<Rightarrow> BloomOptions \<Rightarrow> Float32Array" where
  "applyPyramidBloom linearData width height options =
     (let strength = BloomOptions.strength options;
          threshold = BloomOptions.threshold options;
          radius = BloomOptions.radius options;
          weights = (case BloomOptions.weights options of
                       None \<Rightarrow> [Fin (1 / 10), Fin (2 / 10), Fin (4 / 10), Fin (8 / 10),
                                 Fin 1, Fin 1]
                     | Some ws \<Rightarrow> ws)
      in if strength \<le> Fin 0 then linearData
         else
           (let highlightData = replicate (length linearData) (Fin 0);
                highlightData = foldl (extract_highlight linearData threshold) highlightData
                                  (map (\<lambda>k. 4 * int k) [0..<(length linearData + 3) div 4]);
                levels = fst (foldl (pyramid_level radius (length weights))
                                ([], (highlightData, width, height)) [0..<length weights]);
                result = linearData
            in foldl (\<lambda>result l.
                        foldl (composite_pixel width height (levels ! l)
                                 (elem weights l * strength))
                          result [(y, x). y \<leftarrow> [0..<height], x \<leftarrow> [0..<width]])
                 result [0..<length levels]))"

section \<open>The saturation statistics of the first pass\<close>









section \<open>Arithmetic on finite numbers\<close>








lemma Fin_less_eq: "Fin a \<le> Fin b \<longleftrightarrow> a \<le> b"
  by (simp add: less_eq_jsnum_def)

















section \<open>Dye coupling: the identity matrix and the shape of the matrix\<close>

text \<open>
  C3, as stated, fails at a negative zero: with the identity matrix the first component
  of \<open>[-0, 1, 1]\<close> is \<open>1.0 * -0 + 0.0 * 1 + 0.0 * 1\<close>, and \<open>-0 + 0\<close> is \<open>+0\<close>.
\<close>

theorem identity_coupling_counterexample:
  "applyDyeCouplingToDensity (NZero, Fin 1, Fin 1) IDENTITY_MATRIX \<noteq> (NZero, Fin 1, Fin 1)"
  by (simp add: applyDyeCouplingToDensity_def elem_def IDENTITY_MATRIX_def times_jsnum_def
      signed_zero_def)

text \<open>
  C3 (amended). For every triple \<open>d\<close> of finite numbers,
  \<open>applyDyeCouplingToDensity(d, IDENTITY_MATRIX)\<close> equals \<open>d\<close> component by component
  under \<open>===\<close>, and it is the very same triple, the sign of a zero included, when no
  component of \<open>d\<close> is \<open>-0\<close>.
\<close>

theorem identity_coupling_finite:
  assumes "is_finite dr" "is_finite dg" "is_finite db"
  shows "(case applyDyeCouplingToDensity (dr, dg, db) IDENTITY_MATRIX of
            (a, b, c) \<Rightarrow> js_eq a dr \<and> js_eq b dg \<and> js_eq c db)
         \<and> (dr \<noteq> NZero \<and> dg \<noteq> NZero \<and> db \<noteq> NZero
              \<longrightarrow> applyDyeCouplingToDensity (dr, dg, db) IDENTITY_MATRIX = (dr, dg, db))"
  using assms
  by (cases dr; cases dg; cases db)
     (simp_all add: applyDyeCouplingToDensity_def elem_def IDENTITY_MATRIX_def times_jsnum_def
        signed_zero_def js_eq_def)

theorem identity_coupling_finite_witness:
  "is_finite (Fin 1) \<and> is_finite (Fin 2) \<and> is_finite (Fin 0) \<and> Fin 1 \<noteq> NZero
   \<and> applyDyeCouplingToDensity (Fin 1, Fin 2, Fin 0) IDENTITY_MATRIX = (Fin 1, Fin 2, Fin 0)"
  using identity_coupling_finite [of "Fin 1" "Fin 2" "Fin 0"] by simp

text \<open>
  The transmittance-space entry point raises exactly when the matrix does not have nine
  elements.
\<close>

lemma applyDyeCoupling_raises_iff:
  "(\<exists>e. applyDyeCoupling rgb matrix = Inl e) \<longleftrightarrow> length matrix \<noteq> 9"
  by (auto simp add: applyDyeCoupling_def Let_def split: prod.splits)

text \<open>
  C5. A matrix of other than nine elements should make both entry points raise. The
  density-space entry point has no check: on the four-element matrix \<open>[1, 0, 0, 1]\<close>,
  where \<open>applyDyeCoupling\<close> raises, \<open>applyDyeCouplingToDensity\<close> returns a triple
  with \<open>NaN\<close> in it.
\<close>

theorem applyDyeCouplingToDensity_unchecked:
  "applyDyeCoupling (Fin 1, Fin 2, Fin 3) [Fin 1, Fin 0, Fin 0, Fin 1]
     = Inl (Error ''Dye coupling matrix must have 9 elements (3x3)'')
   \<and> applyDyeCouplingToDensity (Fin 1, Fin 2, Fin 3) [Fin 1, Fin 0, Fin 0, Fin 1]
     = (Fin 1, NaN, NaN)"
  by (simp add: applyDyeCoupling_def applyDyeCouplingToDensity_def elem_def times_jsnum_def
      signed_zero_def)

section \<open>Red halation\<close>




section \<open>The saturation-restoration factor\<close>












section \<open>Film grain\<close>


















section \<open>Pyramid bloom\<close>

text \<open>
  C8. With \<open>strength <= 0\<close>, \<open>applyPyramidBloom\<close> returns its input buffer: the
  test is the first statement of the function, so the result depends on nothing else,
  whatever the buffer, the dimensions and the other options are.
\<close>

theorem applyPyramidBloom_no_strength:
  "BloomOptions.strength options \<le> Fin 0
   \<Longrightarrow> applyPyramidBloom linearData width height options = linearData"
  by (simp add: applyPyramidBloom_def Let_def)

theorem applyPyramidBloom_no_strength_witness:
  "Fin 0 \<le> Fin 0
   \<and> applyPyramidBloom [Fin 1, Fin 1, Fin 1, Fin 1] 1 1
        \<lparr>strength = Fin 0, threshold = Fin (65 / 100), radius = 2, weights = None\<rparr>
      = [Fin 1, Fin 1, Fin 1, Fin 1]"
  using applyPyramidBloom_no_strength
    [of "\<lparr>strength = Fin 0, threshold = Fin (65 / 100), radius = 2, weights = None\<rparr>"
        "[Fin 1, Fin 1, Fin 1, Fin 1]" 1 1]
  by (simp add: Fin_less_eq)

section \<open>Curve interpolation\<close>






section \<open>The engine: construction, exposure and scan\<close>

lemma findMidpointShift_Inr:
  "points \<noteq> [] \<Longrightarrow> \<exists>v. findMidpointShift points target = Inr v"
  by (cases "findMidpointShift points target")
     (auto simp add: findMidpointShift_def Let_def split: prod.splits)

lemma scan_extend [simp]: "scan (Calibration.extend this x) d = scan (this :: Calibration) d"
  by (simp add: scan_def Calibration.extend_def case_prod_beta)

lemma expose_extend [simp]:
  "expose (Calibration.extend this x) rgb ev = expose (this :: Calibration) rgb ev"
  by (simp add: expose_def Calibration.extend_def case_prod_beta)

lemma develop_extend [simp]:
  "develop (Calibration.extend this x) l = develop (this :: Calibration) l"
  by (simp add: develop_def Calibration.extend_def case_prod_beta)

lemma computedBase_extend [simp]:
  "computedBase (Calibration.extend this x) = computedBase (this :: Calibration)"
  by (simp add: computedBase_def)

lemma baseResponse_extend [simp]:
  "baseResponse (Calibration.extend this (SimulationEngine.fields b)) = b"
  by (simp add: Calibration.extend_def SimulationEngine.fields_def)

lemma fields_extend [simp]:
  "dyeDensity (Calibration.extend this x) = dyeDensity this"
  "filmType (Calibration.extend this x) = filmType this"
  "sensitivityMatrix (Calibration.extend this x) = sensitivityMatrix this"
  "normalizationScale (Calibration.extend this x) = normalizationScale this"
  "sensitivityOffsets (Calibration.extend this x) = sensitivityOffsets this"
  by (simp_all add: Calibration.extend_def)

text \<open>What the constructor returns, when it returns.\<close>

lemma SimulationEngine_new_Inr:
  assumes "SimulationEngine_new wl film = Inr e"
  shows "case computedBase e of
           Inl err \<Rightarrow> False
         | Inr (c0, c1, c2) \<Rightarrow>
             baseResponse e =
               (if c0 < 1 / 100 \<or> c1 < 1 / 100 \<or> c2 < 1 / 100 then defaultBase (filmType e)
                else (max (1 / 10 ^ 6) c0, max (1 / 10 ^ 6) c1, max (1 / 10 ^ 6) c2))
             \<and> dyeDensity e = (case dye_density (physics film) of Some d \<Rightarrow> d | None \<Rightarrow> [])
             \<and> filmType e = inferFilmType film"
  using assms
  unfolding SimulationEngine_new_def Let_def
  by (auto split: sum.splits prod.splits if_splits)

lemma SimulationEngine_new_calibration:
  assumes "SimulationEngine_new wl film = Inr e"
    and "findMidpointShift (red (sensitometry film)) 1 = Inr midR"
    and "findMidpointShift (green (sensitometry film)) 1 = Inr midG"
    and "findMidpointShift (blue (sensitometry film)) 1 = Inr midB"
  shows "sensitivityMatrix e =
           (case rgb_to_raw_matrix (physics film) of
              Some m \<Rightarrow> m | None \<Rightarrow> ((1, 0, 0), (0, 1, 0), (0, 0, 1)))"
    and "normalizationScale e =
           (case multiplyMatrixVector (sensitivityMatrix e) (1, 1, 1) of
              (w0, w1, w2) \<Rightarrow> (1 / or1 w0, 1 / or1 w1, 1 / or1 w2))"
    and "sensitivityOffsets e = (0, midG - midR, midB - midR)"
  using assms
  unfolding SimulationEngine_new_def Let_def
  by (auto split: sum.splits prod.splits if_splits)

lemma SimulationEngine_new_profile:
  assumes "SimulationEngine_new wl film = Inr e"
  shows "profile e = film"
    and "dMin e = (getMinY (red (sensitometry film)), getMinY (green (sensitometry film)),
                   getMinY (blue (sensitometry film)))"
  using assms
  unfolding SimulationEngine_new_def Let_def
  by (auto simp add: Calibration.extend_def split: sum.splits prod.splits if_splits)

lemma SimulationEngine_new_total:
  assumes "red (sensitometry film) \<noteq> []" "green (sensitometry film) \<noteq> []"
    "blue (sensitometry film) \<noteq> []"
    and "dye_density (physics film) = None \<or> dye_density (physics film) = Some []"
  shows "\<exists>e. SimulationEngine_new wl film = Inr e"
proof -
  obtain midR midG midB where m: "findMidpointShift (red (sensitometry film)) 1 = Inr midR"
    "findMidpointShift (green (sensitometry film)) 1 = Inr midG"
    "findMidpointShift (blue (sensitometry film)) 1 = Inr midB"
    using assms(1-3) findMidpointShift_Inr by metis
  show ?thesis
    unfolding SimulationEngine_new_def Let_def m
    using assms(4)
    by (auto simp add: computedBase_def scan_def Let_def split: prod.splits)
qed

lemma example_profile_engine:
  "\<exists>e. SimulationEngine_new wl example_profile = Inr e
     \<and> sensitivityMatrix e = ((1, 1, 0), (0, 1, 0), (0, 0, 1))
     \<and> normalizationScale e = (1 / 2, 1, 1)
     \<and> sensitivityOffsets e = (0, 0, 0)
     \<and> dyeDensity e = []
     \<and> filmType e = reversal"
proof -
  let ?c = "[\<lparr>px = - 3, py = 2 / 10\<rparr>, \<lparr>px = 0, py = 22 / 10\<rparr>]"
  obtain e where e: "SimulationEngine_new wl example_profile = Inr e"
    using SimulationEngine_new_total [of example_profile wl] by (auto simp add: example_profile_def)
  obtain mid where mid: "findMidpointShift ?c 1 = Inr mid"
    using findMidpointShift_Inr [of ?c 1] by auto
  have m: "findMidpointShift (red (sensitometry example_profile)) 1 = Inr mid"
    "findMidpointShift (green (sensitometry example_profile)) 1 = Inr mid"
    "findMidpointShift (blue (sensitometry example_profile)) 1 = Inr mid"
    using mid by (simp_all add: example_profile_def)
  note cal = SimulationEngine_new_calibration [OF e m]
  have sm: "sensitivityMatrix e = ((1, 1, 0), (0, 1, 0), (0, 0, 1))"
    using cal(1) by (simp add: example_profile_def)
  have ns: "normalizationScale e = (1 / 2, 1, 1)"
    using cal(2) unfolding sm by (simp add: multiplyMatrixVector_def or1_def)
  have "toLowerCase ''Fuji Provia 100F'' = ''fuji provia 100f''"
    by code_simp
  then have ft: "inferFilmType example_profile = reversal"
    by (simp add: inferFilmType_def example_profile_def Let_def)
  have dd: "dye_density (physics example_profile) = None"
    by (simp add: example_profile_def)
  from SimulationEngine_new_Inr [OF e] have "dyeDensity e = []" "filmType e = reversal"
    by (auto simp add: ft dd split: sum.splits prod.splits)
  with e sm ns cal(3) show ?thesis by simp
qed

lemma log10_millionth: "log 10 (1 / 10 ^ 6) = - 6"
proof -
  have "log 10 (10 ^ 6 :: real) = 6"
    using log_nat_power [of 10 10 6] by simp
  then show ?thesis
    by (simp add: log_divide)
qed

text \<open>
  The base response of the two example profiles: the computed response \<open>(1, 1, 1)\<close>
  is kept, the computed response \<open>(0.001, 0.001, 0.001)\<close> is replaced by the default
  of negative film.
\<close>

lemma example_profile_base:
  assumes "SimulationEngine_new wl example_profile = Inr e"
  shows "computedBase e = Inr (1, 1, 1)" and "baseResponse e = (1, 1, 1)"
proof -
  obtain e' where e': "SimulationEngine_new wl example_profile = Inr e'"
    "sensitivityMatrix e' = ((1, 1, 0), (0, 1, 0), (0, 0, 1))"
    "normalizationScale e' = (1 / 2, 1, 1)" "sensitivityOffsets e' = (0, 0, 0)"
    "dyeDensity e' = []"
    using example_profile_engine [of wl] by blast
  with assms have ee: "e' = e" by simp
  note f = e'(2-5) [unfolded ee] SimulationEngine_new_profile [OF assms]
  have x: "expose e (0, 0, 0) (- 20) = (- 6, - 6, - 6)"
    using log10_millionth by (simp add: expose_def f Let_def)
  have d: "develop e (- 6, - 6, - 6) = (0, 0, 0)"
    by (simp add: develop_def f Let_def example_profile_def interpolate_def)
  show c: "computedBase e = Inr (1, 1, 1)"
    by (simp add: computedBase_def Let_def x d scan_def f)
  from SimulationEngine_new_Inr [OF assms] show "baseResponse e = (1, 1, 1)"
    unfolding c by simp
qed



text \<open>
  C1. \<open>expose\<close> should compute the raw response as the row-major product
  \<open>sensitivityMatrix \<cdot> rgb\<close>, the product the constructor takes for the response to
  white. The code sums down the columns instead (\<open>raw[i] = sum over j of
  rgb[j] * m[j][i]\<close>): on the example profile white is exposed to
  \<open>[log10 0.5, log10 2, 0]\<close>, where the row-major product with the normalisation of
  the constructor gives \<open>[0, 0, 0]\<close>, and pure red \<open>[1, 0, 0]\<close> excites the green
  channel.
\<close>

theorem expose_column_sums:
  "\<exists>e. SimulationEngine_new [] example_profile = Inr e
     \<and> expose e (1, 1, 1) 0 = (log 10 (1 / 2), log 10 2, 0)
     \<and> expose_row_major e (1, 1, 1) 0 = (0, 0, 0)
     \<and> expose e (1, 1, 1) 0 \<noteq> expose_row_major e (1, 1, 1) 0
     \<and> expose e (1, 0, 0) 0 = (log 10 (1 / 2), 0, - 6)
     \<and> expose_row_major e (1, 0, 0) 0 = (log 10 (1 / 2), - 6, - 6)"
proof -
  obtain e where e: "SimulationEngine_new [] example_profile = Inr e"
    "sensitivityMatrix e = ((1, 1, 0), (0, 1, 0), (0, 0, 1))"
    "normalizationScale e = (1 / 2, 1, 1)" "sensitivityOffsets e = (0, 0, 0)"
    using example_profile_engine [of "[]"] by blast
  have 1: "expose e (1, 1, 1) 0 = (log 10 (1 / 2), log 10 2, 0)"
    by (simp add: expose_def e Let_def)
  have 2: "expose_row_major e (1, 1, 1) 0 = (0, 0, 0)"
    by (simp add: expose_row_major_def multiplyMatrixVector_def e)
  have 3: "expose e (1, 0, 0) 0 = (log 10 (1 / 2), 0, - 6)"
    using log10_millionth by (simp add: expose_def e Let_def)
  have 4: "expose_row_major e (1, 0, 0) 0 = (log 10 (1 / 2), - 6, - 6)"
    using log10_millionth by (simp add: expose_row_major_def multiplyMatrixVector_def e)
  have "0 < log 10 (2 :: real)" by simp
  then have "log 10 2 \<noteq> (0 :: real)" by linarith
  with e(1) 1 2 3 4 show ?thesis by auto
qed

text \<open>
  In general \<open>expose\<close> is the row-major reading applied to the transposed matrix.
\<close>

lemma expose_transposed:
  assumes "sensitivityMatrix this = ((a, b, c), (d, e, f), (g, h, i))"
  shows "expose this rgb ev
           = expose_row_major (this\<lparr>sensitivityMatrix := ((a, d, g), (b, e, h), (c, f, i))\<rparr>) rgb ev"
  by (cases rgb) (simp add: expose_def expose_row_major_def multiplyMatrixVector_def assms
      Let_def case_prod_beta algebra_simps)

text \<open>
  C2. When the dye-density table is empty, \<open>scan([C, M, Y])\<close> is
  \<open>[10^-C, 10^-M, 10^-Y]\<close>: for every engine state with an empty table, whatever its
  film type, and so for the engine constructed from any profile whose table is absent or
  empty.
\<close>

theorem scan_without_dye_table:
  "(dyeDensity this = []
      \<longrightarrow> scan this (C, M, Y) = Inr (10 powr (- C), 10 powr (- M), 10 powr (- Y)))
   \<and> (SimulationEngine_new wl film = Inr e
        \<and> (dye_density (physics film) = None \<or> dye_density (physics film) = Some [])
      \<longrightarrow> scan e (C, M, Y) = Inr (10 powr (- C), 10 powr (- M), 10 powr (- Y)))"
proof -
  have a: "scan this (C, M, Y) = Inr (10 powr (- C), 10 powr (- M), 10 powr (- Y))"
    if "dyeDensity this = []" for this :: "'b Calibration_scheme"
    using that by (simp add: scan_def)
  have "dyeDensity e = []"
    if "SimulationEngine_new wl film = Inr e"
      "dye_density (physics film) = None \<or> dye_density (physics film) = Some []"
    using SimulationEngine_new_Inr [OF that(1)] that(2)
    by (auto split: sum.splits prod.splits)
  with a show ?thesis by (simp add: scan_def)
qed

theorem scan_without_dye_table_witness:
  "\<exists>e. SimulationEngine_new [] example_profile = Inr e
     \<and> dye_density (physics example_profile) = None
     \<and> dyeDensity e = []
     \<and> filmType e = reversal
     \<and> scan e (0, 1, 2) = Inr (10 powr (- 0), 10 powr (- 1), 10 powr (- 2))"
proof -
  obtain e where e: "SimulationEngine_new [] example_profile = Inr e" "dyeDensity e = []"
    "filmType e = reversal"
    using example_profile_engine [of "[]"] by blast
  have d: "dye_density (physics example_profile) = None"
    by (simp add: example_profile_def)
  from scan_without_dye_table [of e 0 1 2 "[]" example_profile e] e d
  have "scan e (0, 1, 2) = Inr (10 powr (- 0), 10 powr (- 1), 10 powr (- 2))"
    by blast
  with e d show ?thesis by blast
qed



end
